theory Spec2Isabelle
  imports Main "HOL-Library.Sublist"
begin

section \<open>Values exchanged over the bridge\<close>

text \<open>
  Both programs exchange Python values that \<^verbatim>\<open>json.dumps\<close> can write and
  \<^verbatim>\<open>json.loads\<close> can return: \<^verbatim>\<open>None\<close>, booleans, integers, floats, strings,
  lists (a tuple is written like a list) and dictionaries with string keys. Binary
  floating point is not modelled: a float is a value of the type parameter \<open>'f\<close>, and
  the two operations the programs apply to floats (printing and \<^verbatim>\<open>round(x, 2)\<close>) are
  parameters. A dictionary is an association list in insertion order; a lookup reads
  the first entry of a key.
\<close>

datatype 'f json =
    JNull
  | JBool bool
  | JInt int
  | JFloat 'f
  | JStr string
  | JArr "'f json list"
  | JObj "(string \<times> 'f json) list"

type_synonym bytes = string

subsection \<open>\<^verbatim>\<open>json.dumps\<close> with its default arguments\<close>

definition hex_digit :: "nat \<Rightarrow> char" where
  "hex_digit d = (if d < 10 then char_of (48 + d) else char_of (87 + d))"

function nat_repr :: "nat \<Rightarrow> string" where
  "nat_repr n =
     (if n < 10 then [char_of (48 + n)]
      else nat_repr (n div 10) @ [char_of (48 + n mod 10)])"
  by pat_completeness auto
termination
  by (relation "measure id") auto

definition int_repr :: "int \<Rightarrow> string" where
  "int_repr i = (if i < 0 then CHR ''-'' # nat_repr (nat (- i)) else nat_repr (nat i))"

text \<open>
  \<^verbatim>\<open>ensure_ascii=True\<close>: the quote, the backslash and the characters outside
  \<^verbatim>\<open>' '..'~'\<close> are escaped, so the text is printable ASCII and its UTF-8 encoding is
  the same bytes.
\<close>

definition escape_char :: "char \<Rightarrow> string" where
  "escape_char c =
     (if c = CHR 0x22 then [CHR 0x5C, CHR 0x22]
      else if c = CHR 0x5C then [CHR 0x5C, CHR 0x5C]
      else if c = CHR 0x0A then [CHR 0x5C, CHR ''n'']
      else if c = CHR 0x0D then [CHR 0x5C, CHR ''r'']
      else if c = CHR 0x09 then [CHR 0x5C, CHR ''t'']
      else if c = CHR 0x08 then [CHR 0x5C, CHR ''b'']
      else if c = CHR 0x0C then [CHR 0x5C, CHR ''f'']
      else if of_char c < (32::nat) \<or> (126::nat) < of_char c
        then [CHR 0x5C, CHR ''u'', CHR ''0'', CHR ''0'',
              hex_digit (of_char c div 16), hex_digit (of_char c mod 16)]
      else [c])"

definition encode_str :: "string \<Rightarrow> string" where
  "encode_str s = CHR 0x22 # concat (map escape_char s) @ [CHR 0x22]"

fun join :: "string \<Rightarrow> string list \<Rightarrow> string" where
  "join sep [] = []"
| "join sep [x] = x"
| "join sep (x # y # ys) = x @ sep @ join sep (y # ys)"

fun dumps :: "('f \<Rightarrow> string) \<Rightarrow> 'f json \<Rightarrow> bytes" where
  "dumps float_repr JNull = ''null''"
| "dumps float_repr (JBool b) = (if b then ''true'' else ''false'')"
| "dumps float_repr (JInt i) = int_repr i"
| "dumps float_repr (JFloat x) = float_repr x"
| "dumps float_repr (JStr s) = encode_str s"
| "dumps float_repr (JArr xs) = ''['' @ join '', '' (map (dumps float_repr) xs) @ '']''"
| "dumps float_repr (JObj kvs) =
     ''{'' @ join '', ''
       (map (\<lambda>kv. encode_str (fst kv) @ '': '' @ dumps float_repr (snd kv)) kvs) @ ''}''"

subsection \<open>\<^verbatim>\<open>json.loads(data.decode('utf-8'))\<close>\<close>

text \<open>
  The decoder belongs to Python's library, so it is a parameter of every function
  that calls it. It has three outcomes the programs tell apart: a value, the
  \<^verbatim>\<open>JSONDecodeError\<close> both receive loops catch, and the \<^verbatim>\<open>UnicodeDecodeError\<close> of
  \<^verbatim>\<open>decode\<close>, which neither loop catches as an incomplete document.
\<close>

datatype 'a parsed = Parsed 'a | JSONDecodeError | UnicodeDecodeError

type_synonym 'f loads = "bytes \<Rightarrow> 'f json parsed"

section \<open>The Maya plugin: \<^verbatim>\<open>Client/maya_mcp.py\<close>\<close>

subsection \<open>Exceptions and dictionary access\<close>

datatype exn =
    AttributeError string
  | TypeError string
  | IndexError string
  | HostError string

fun str_exn :: "exn \<Rightarrow> string" where
  "str_exn (AttributeError m) = m"
| "str_exn (TypeError m) = m"
| "str_exn (IndexError m) = m"
| "str_exn (HostError m) = m"

fun type_name :: "'f json \<Rightarrow> string" where
  "type_name JNull = ''NoneType''"
| "type_name (JBool b) = ''bool''"
| "type_name (JInt i) = ''int''"
| "type_name (JFloat x) = ''float''"
| "type_name (JStr s) = ''str''"
| "type_name (JArr xs) = ''list''"
| "type_name (JObj kvs) = ''dict''"

definition no_attribute :: "'f json \<Rightarrow> string \<Rightarrow> string" where
  "no_attribute v a =
     [CHR 0x27] @ type_name v @ [CHR 0x27] @ '' object has no attribute '' @
     [CHR 0x27] @ a @ [CHR 0x27]"

text \<open>\<^verbatim>\<open>d.get(k, default)\<close>: an \<^verbatim>\<open>AttributeError\<close> when \<open>d\<close> is not a dictionary.\<close>

definition py_get :: "'f json \<Rightarrow> string \<Rightarrow> 'f json \<Rightarrow> exn + 'f json" where
  "py_get d k dflt =
     (case d of
        JObj kvs \<Rightarrow> Inr (case map_of kvs k of Some v \<Rightarrow> v | None \<Rightarrow> dflt)
      | _ \<Rightarrow> Inl (AttributeError (no_attribute d ''get'')))"

subsection \<open>The host: \<^verbatim>\<open>maya.cmds\<close>\<close>

text \<open>
  The scene commands belong to Maya. They are fields of a record over an abstract
  scene \<open>'s\<close>; each can raise, and a command that raises leaves the scene as it was.
  A node argument is a list of node names (Maya takes a name or a list of names).
\<close>

datatype xform_attr = Translation | Rotation | Scale

record ('f, 's) maya_cmds =
  cmds_file_sn :: "'s \<Rightarrow> exn + string"
  cmds_ls_transforms :: "'s \<Rightarrow> exn + string list"
  cmds_ls_materials :: "'s \<Rightarrow> exn + string list"
  cmds_ls :: "'f json \<Rightarrow> 's \<Rightarrow> exn + string list"
  cmds_nodeType :: "string \<Rightarrow> 's \<Rightarrow> exn + string"
  cmds_polyCube :: "'f json \<Rightarrow> 's \<Rightarrow> exn + string list \<times> 's"
  cmds_xform :: "string list \<Rightarrow> xform_attr \<Rightarrow> 'f json \<Rightarrow> 's \<Rightarrow> exn + 's"
  cmds_xform_q :: "string list \<Rightarrow> xform_attr \<Rightarrow> 's \<Rightarrow> exn + 'f list"
  cmds_setAttr :: "string \<Rightarrow> 'f json \<Rightarrow> 's \<Rightarrow> exn + 's"
  cmds_getAttr :: "string \<Rightarrow> 's \<Rightarrow> exn + 'f json"
  round2 :: "'f \<Rightarrow> 'f"

subsection \<open>The handlers\<close>

definition create_object ::
  "('f, 's) maya_cmds \<Rightarrow> 'f json \<Rightarrow> 's \<Rightarrow> (exn + 'f json) \<times> 's" where
  "create_object cmds params s =
     (case py_get params ''type'' (JStr ''pCube1'') of Inl e \<Rightarrow> (Inl e, s) | Inr name \<Rightarrow>
      (case py_get params ''location'' (JArr [JInt 0, JInt 0, JInt 0]) of
         Inl e \<Rightarrow> (Inl e, s) | Inr location \<Rightarrow>
      (case py_get params ''rotation'' (JArr [JInt 0, JInt 0, JInt 0]) of
         Inl e \<Rightarrow> (Inl e, s) | Inr rotaion \<Rightarrow>
      (case py_get params ''scale'' (JArr [JInt 1, JInt 1, JInt 1]) of
         Inl e \<Rightarrow> (Inl e, s) | Inr scale \<Rightarrow>
      (case cmds_polyCube cmds name s of Inl e \<Rightarrow> (Inl e, s) | Inr (created, s1) \<Rightarrow>
      (case created of
         [] \<Rightarrow> (Inl (IndexError ''list index out of range''), s1)
       | cube # _ \<Rightarrow>
      (case cmds_xform cmds [cube] Translation location s1 of
         Inl e \<Rightarrow> (Inl e, s1) | Inr s2 \<Rightarrow>
      (case cmds_xform cmds [cube] Rotation rotaion s2 of
         Inl e \<Rightarrow> (Inl e, s2) | Inr s3 \<Rightarrow>
      (case cmds_xform cmds [cube] Scale scale s3 of
         Inl e \<Rightarrow> (Inl e, s3) | Inr s4 \<Rightarrow>
      (Inr (JObj [(''name'', name), (''location'', location)]), s4))))))))))"

text \<open>\<^verbatim>\<open>if x is not None: cmds.xform(obj, ws=True, ...=x)\<close>\<close>

definition xform_unless_None ::
  "('f, 's) maya_cmds \<Rightarrow> string list \<Rightarrow> xform_attr \<Rightarrow> 'f json \<Rightarrow> 's \<Rightarrow> exn + 's" where
  "xform_unless_None cmds obj a x s = (if x \<noteq> JNull then cmds_xform cmds obj a x s else Inr s)"

text \<open>\<^verbatim>\<open>f"{obj[0]}.visibility"\<close>\<close>

definition visibility_attr :: "string list \<Rightarrow> exn + string" where
  "visibility_attr obj =
     (case obj of
        [] \<Rightarrow> Inl (IndexError ''list index out of range'')
      | n # _ \<Rightarrow> Inr (n @ ''.visibility''))"

definition modify_object_result ::
  "('f, 's) maya_cmds \<Rightarrow> 'f json \<Rightarrow> string list \<Rightarrow> 's \<Rightarrow> exn + 'f json" where
  "modify_object_result cmds name obj s =
     (case cmds_xform_q cmds obj Translation s of Inl e \<Rightarrow> Inl e | Inr t \<Rightarrow>
      (case cmds_xform_q cmds obj Rotation s of Inl e \<Rightarrow> Inl e | Inr ro \<Rightarrow>
      (case cmds_xform_q cmds obj Scale s of Inl e \<Rightarrow> Inl e | Inr sc \<Rightarrow>
      (case visibility_attr obj of Inl e \<Rightarrow> Inl e | Inr attr \<Rightarrow>
      (case cmds_getAttr cmds attr s of Inl e \<Rightarrow> Inl e | Inr vis \<Rightarrow>
       Inr (JObj [(''name'', name),
                  (''location'', JArr (map JFloat t)),
                  (''rotation'', JArr (map JFloat ro)),
                  (''scale'', JArr (map JFloat sc)),
                  (''visibility'', vis)]))))))"

definition modify_object ::
  "('f, 's) maya_cmds \<Rightarrow> 'f json \<Rightarrow> 's \<Rightarrow> (exn + 'f json) \<times> 's" where
  "modify_object cmds params s =
     (case py_get params ''name'' JNull of Inl e \<Rightarrow> (Inl e, s) | Inr name \<Rightarrow>
      (case cmds_ls cmds name s of Inl e \<Rightarrow> (Inl e, s) | Inr obj \<Rightarrow>
      (case py_get params ''location'' JNull of Inl e \<Rightarrow> (Inl e, s) | Inr location \<Rightarrow>
      (case py_get params ''rotation'' JNull of Inl e \<Rightarrow> (Inl e, s) | Inr rotation \<Rightarrow>
      (case py_get params ''scale'' JNull of Inl e \<Rightarrow> (Inl e, s) | Inr scale \<Rightarrow>
      (case py_get params ''visibility'' (JBool True) of
         Inl e \<Rightarrow> (Inl e, s) | Inr visibility \<Rightarrow>
      (case xform_unless_None cmds obj Translation location s of
         Inl e \<Rightarrow> (Inl e, s) | Inr s1 \<Rightarrow>
      (case xform_unless_None cmds obj Rotation rotation s1 of
         Inl e \<Rightarrow> (Inl e, s1) | Inr s2 \<Rightarrow>
      (case xform_unless_None cmds obj Scale scale s2 of
         Inl e \<Rightarrow> (Inl e, s2) | Inr s3 \<Rightarrow>
      (case (if visibility \<noteq> JNull
             then (case visibility_attr obj of
                     Inl e \<Rightarrow> Inl e
                   | Inr attr \<Rightarrow> cmds_setAttr cmds attr visibility s3)
             else Inr s3) of
         Inl e \<Rightarrow> (Inl e, s3) | Inr s4 \<Rightarrow>
      (modify_object_result cmds name obj s4, s4)))))))))))"

text \<open>
  The loop of \<^verbatim>\<open>get_scene_info\<close> over \<^verbatim>\<open>enumerate(all_objects)\<close>: \<open>i\<close> is the
  index, \<open>acc\<close> is \<^verbatim>\<open>scene_info["objects"]\<close>.
\<close>

fun scene_objects ::
  "('f, 's) maya_cmds \<Rightarrow> 's \<Rightarrow> nat \<Rightarrow> string list \<Rightarrow> 'f json list \<Rightarrow> exn + 'f json list" where
  "scene_objects cmds s i [] acc = Inr acc"
| "scene_objects cmds s i (obj # rest) acc =
     (if i \<ge> 10 then Inr acc
      else
        (case cmds_xform_q cmds [obj] Translation s of Inl e \<Rightarrow> Inl e | Inr position \<Rightarrow>
        (case cmds_nodeType cmds obj s of Inl e \<Rightarrow> Inl e | Inr ty \<Rightarrow>
        (case position of
           x # y # z # _ \<Rightarrow>
             scene_objects cmds s (i + 1) rest
               (acc @ [JObj [(''name'', JStr obj),
                             (''type'', JStr ty),
                             (''location'', JArr [JFloat (round2 cmds x),
                                                  JFloat (round2 cmds y),
                                                  JFloat (round2 cmds z)])]])
         | _ \<Rightarrow> Inl (IndexError ''list index out of range'')))))"

definition scene_info_try :: "('f, 's) maya_cmds \<Rightarrow> 's \<Rightarrow> exn + 'f json" where
  "scene_info_try cmds s =
     (case cmds_file_sn cmds s of Inl e \<Rightarrow> Inl e | Inr sn \<Rightarrow>
      (case cmds_ls_transforms cmds s of Inl e \<Rightarrow> Inl e | Inr all_objects \<Rightarrow>
      (case cmds_ls_materials cmds s of Inl e \<Rightarrow> Inl e | Inr materials \<Rightarrow>
      (case scene_objects cmds s 0 all_objects [] of Inl e \<Rightarrow> Inl e | Inr objects \<Rightarrow>
       Inr (JObj [(''name'', JStr (if sn = [] then ''untitled'' else sn)),
                  (''object_count'', JInt (int (length all_objects))),
                  (''objects'', JArr objects),
                  (''materials_count'', JInt (int (length materials)))])))))"

definition get_scene_info ::
  "('f, 's) maya_cmds \<Rightarrow> 'f json \<Rightarrow> 's \<Rightarrow> (exn + 'f json) \<times> 's" where
  "get_scene_info cmds params s =
     (case scene_info_try cmds s of
        Inr scene_info \<Rightarrow> (Inr scene_info, s)
      | Inl e \<Rightarrow> (Inr (JObj [(''error'', JStr (str_exn e))]), s))"

subsection \<open>Dispatch\<close>

text \<open>The methods of \<^verbatim>\<open>MayaMCPServer\<close> that take a parameter mapping.\<close>

datatype handler = Method_get_scene_info | Method_create_object | Method_modify_object

fun call_handler ::
  "('f, 's) maya_cmds \<Rightarrow> handler \<Rightarrow> 'f json \<Rightarrow> 's \<Rightarrow> (exn + 'f json) \<times> 's" where
  "call_handler cmds Method_get_scene_info = get_scene_info cmds"
| "call_handler cmds Method_create_object = create_object cmds"
| "call_handler cmds Method_modify_object = modify_object cmds"

definition handlers :: "(string \<times> handler) list" where
  "handlers = [(''get_scene_info'', Method_get_scene_info),
               (''create_object'', Method_create_object)]"

text \<open>\<^verbatim>\<open>handlers.get(cmd_type)\<close>: a list or a dictionary is not hashable.\<close>

definition handlers_get :: "'f json \<Rightarrow> exn + handler option" where
  "handlers_get cmd_type =
     (case cmd_type of
        JStr n \<Rightarrow> Inr (map_of handlers n)
      | JArr _ \<Rightarrow> Inl (TypeError (''unhashable type: '' @ [CHR 0x27] @ ''list'' @ [CHR 0x27]))
      | JObj _ \<Rightarrow> Inl (TypeError (''unhashable type: '' @ [CHR 0x27] @ ''dict'' @ [CHR 0x27]))
      | _ \<Rightarrow> Inr None)"

text \<open>
  \<^verbatim>\<open>_execute_command_internal\<close>. A function that ends without \<^verbatim>\<open>return\<close> returns
  \<^verbatim>\<open>None\<close>, the value \<open>JNull\<close>.
\<close>

definition execute_command_internal ::
  "('f, 's) maya_cmds \<Rightarrow> 'f json \<Rightarrow> 's \<Rightarrow> (exn + 'f json) \<times> 's" where
  "execute_command_internal cmds command s =
     (case py_get command ''command'' JNull of Inl e \<Rightarrow> (Inl e, s) | Inr cmd_type \<Rightarrow>
      (case py_get command ''params'' (JObj []) of Inl e \<Rightarrow> (Inl e, s) | Inr params \<Rightarrow>
      (case handlers_get cmd_type of
         Inl e \<Rightarrow> (Inl e, s)
       | Inr None \<Rightarrow> (Inr JNull, s)
       | Inr (Some h) \<Rightarrow>
           (case call_handler cmds h params s of
              (Inl e, s') \<Rightarrow> (Inl e, s')
            | (Inr result, s') \<Rightarrow>
                (Inr (JObj [(''status'', JStr ''success''), (''result'', result)]), s')))))"

text \<open>
  Which thread runs a piece of work is an effect of the program, so the model names
  it. \<^verbatim>\<open>maya.utils.executeInMainThreadWithResult(f, x)\<close> runs \<open>f\<close> on Maya's main
  thread, whoever calls it, and hands the result to the caller, who waits for it.
  A direct call runs on the caller's thread.
\<close>

datatype thread = HandlingContext | OwnerThread

datatype route = ViaExecuteInMainThreadWithResult | DirectCall

definition executeInMainThreadWithResult :: "(thread \<Rightarrow> 'a) \<Rightarrow> thread \<Rightarrow> 'a" where
  "executeInMainThreadWithResult work caller = work OwnerThread"

definition direct_call :: "(thread \<Rightarrow> 'a) \<Rightarrow> thread \<Rightarrow> 'a" where
  "direct_call work caller = work caller"

record 'f execution =
  exec_command :: "'f json"
  exec_route :: route
  exec_thread :: thread

definition mutating :: "string list" where
  "mutating = [''create_object'', ''modify_object'', ''delete_object'']"

text \<open>\<^verbatim>\<open>cmd_type in [...]\<close> compares with \<^verbatim>\<open>==\<close>: only a string equals a string.\<close>

definition is_mutating :: "'f json \<Rightarrow> bool" where
  "is_mutating cmd_type = (case cmd_type of JStr n \<Rightarrow> n \<in> set mutating | _ \<Rightarrow> False)"

definition error_response :: "exn \<Rightarrow> 'f json" where
  "error_response e = JObj [(''status'', JStr ''error''), (''message'', JStr (str_exn e))]"

text \<open>
  \<^verbatim>\<open>execute_command\<close>, called on the thread \<open>caller\<close>: the response, the scene, and
  (once the command name has been read) where \<^verbatim>\<open>_execute_command_internal\<close> ran.
  Its own \<^verbatim>\<open>params = command.get("params", {})\<close> is only printed, and cannot raise
  once \<^verbatim>\<open>command.get("command")\<close> has not.
\<close>

definition execute_command ::
  "('f, 's) maya_cmds \<Rightarrow> thread \<Rightarrow> 'f json \<Rightarrow> 's \<Rightarrow> 'f json \<times> 's \<times> 'f execution option" where
  "execute_command cmds caller command s =
     (case py_get command ''command'' JNull of
        Inl e \<Rightarrow> (error_response e, s, None)
      | Inr cmd_type \<Rightarrow>
          (let rt = (if is_mutating cmd_type then ViaExecuteInMainThreadWithResult else DirectCall);
               (outcome, t) =
                 (if is_mutating cmd_type
                  then executeInMainThreadWithResult
                         (\<lambda>t. (execute_command_internal cmds command s, t)) caller
                  else direct_call (\<lambda>t. (execute_command_internal cmds command s, t)) caller);
               ex = Some \<lparr>exec_command = command, exec_route = rt, exec_thread = t\<rparr>
           in (case outcome of
                 (Inr response, s') \<Rightarrow> (response, s', ex)
               | (Inl e, s') \<Rightarrow> (error_response e, s', ex))))"

subsection \<open>One connection: \<^verbatim>\<open>_handle_client\<close>\<close>

text \<open>
  The handling thread and Maya's main thread share the variables of one call of
  \<^verbatim>\<open>_handle_client\<close>. The model is a state and a step per event, and the order of the
  events is the interleaving:
  \<^item> \<open>Recv data\<close>: \<^verbatim>\<open>client.recv(8192)\<close> returns \<open>data\<close> on the handling thread
    (nothing when the peer has closed);
  \<^item> \<open>RecvRaises\<close>: \<^verbatim>\<open>recv\<close> raises;
  \<^item> \<open>MainThreadIdle\<close>: Maya's main thread runs the oldest closure that
    \<^verbatim>\<open>maya.utils.executeDeferred\<close> has queued.
  Every closure \<^verbatim>\<open>execute_wrapper\<close> reads the variables \<^verbatim>\<open>command\<close> and
  \<^verbatim>\<open>client\<close> of the enclosing call when it runs, so the queue is a count.
  \<^verbatim>\<open>self.running\<close> does not change while the connection is handled, and
  \<^verbatim>\<open>client.sendall\<close> raises exactly when the handler has closed the socket.
\<close>

datatype event = Recv bytes | RecvRaises | MainThreadIdle

record ('f, 's) handler_state =
  running :: bool
  buffer :: bytes
  command :: "'f json option"
  deferred :: nat
  sent :: "bytes list"
  executions :: "'f execution list"
  scene :: 's
  closed :: bool

definition handler_start :: "'s \<Rightarrow> ('f, 's) handler_state" where
  "handler_start s =
     \<lparr>running = True, buffer = [], command = None, deferred = 0, sent = [],
      executions = [], scene = s, closed = False\<rparr>"

text \<open>
  \<^verbatim>\<open>execute_wrapper\<close>, on the main thread. \<^verbatim>\<open>execute_command\<close> raises nothing and
  every value of the model can be written by \<^verbatim>\<open>json.dumps\<close>, so the outer
  \<^verbatim>\<open>except\<close> of the source has no path here; a failed \<^verbatim>\<open>sendall\<close> is swallowed.
\<close>

definition execute_wrapper ::
  "('f \<Rightarrow> string) \<Rightarrow> ('f, 's) maya_cmds \<Rightarrow> ('f, 's) handler_state \<Rightarrow> ('f, 's) handler_state" where
  "execute_wrapper float_repr cmds st =
     (case command st of
        None \<Rightarrow> st
      | Some cmd \<Rightarrow>
          (case execute_command cmds OwnerThread cmd (scene st) of
             (response, s', ex) \<Rightarrow>
               st\<lparr>scene := s',
                  executions := executions st @ (case ex of None \<Rightarrow> [] | Some x \<Rightarrow> [x]),
                  sent := (if closed st then sent st
                           else sent st @ [dumps float_repr response])\<rparr>))"

text \<open>One pass of the body of \<^verbatim>\<open>while self.running\<close>, with what \<^verbatim>\<open>recv\<close> returned.\<close>

definition handle_recv ::
  "'f loads \<Rightarrow> bytes \<Rightarrow> ('f, 's) handler_state \<Rightarrow> ('f, 's) handler_state" where
  "handle_recv loads data st =
     (if data = [] then st\<lparr>closed := True\<rparr>
      else
        (case loads (buffer st @ data) of
           Parsed cmd \<Rightarrow>
             st\<lparr>buffer := [], command := Some cmd, deferred := deferred st + 1\<rparr>
         | JSONDecodeError \<Rightarrow> st\<lparr>buffer := buffer st @ data\<rparr>
         | UnicodeDecodeError \<Rightarrow> st\<lparr>buffer := buffer st @ data, closed := True\<rparr>))"

fun step ::
  "'f loads \<Rightarrow> ('f \<Rightarrow> string) \<Rightarrow> ('f, 's) maya_cmds \<Rightarrow>
   ('f, 's) handler_state \<Rightarrow> event \<Rightarrow> ('f, 's) handler_state" where
  "step loads float_repr cmds st (Recv data) =
     (if closed st then st
      else if running st then handle_recv loads data st
      else st\<lparr>closed := True\<rparr>)"
| "step loads float_repr cmds st RecvRaises =
     (if closed st then st else st\<lparr>closed := True\<rparr>)"
| "step loads float_repr cmds st MainThreadIdle =
     (if deferred st = 0 then st
      else execute_wrapper float_repr cmds (st\<lparr>deferred := deferred st - 1\<rparr>))"

definition handle_client ::
  "'f loads \<Rightarrow> ('f \<Rightarrow> string) \<Rightarrow> ('f, 's) maya_cmds \<Rightarrow>
   ('f, 's) handler_state \<Rightarrow> event list \<Rightarrow> ('f, 's) handler_state" where
  "handle_client loads float_repr cmds st evs = foldl (step loads float_repr cmds) st evs"

section \<open>The MCP server: \<^verbatim>\<open>Server/maya_mcp/server.py\<close>\<close>

subsection \<open>Failures, the socket and the peer\<close>

text \<open>
  \<open>Exception v\<close> is \<^verbatim>\<open>Exception(v)\<close>, told apart by its argument; the other
  constructors are the library exceptions that reach the caller.
\<close>

datatype 'f failure =
    Exception "'f json"
  | SocketFailure string
  | DecodeFailure
  | JSONFailure
  | AttributeFailure string
  | KeyFailure string
  | TypeFailure string

type_synonym socket = nat

record connection =
  host :: string
  port :: nat
  sock :: "socket option"

text \<open>
  What \<^verbatim>\<open>sock.recv\<close> does, call after call, while one response is awaited. When the
  list is used up nothing more arrives, and \<^verbatim>\<open>recv\<close> ends in the timeout of 15
  seconds.
\<close>

datatype recv_event = Data bytes | Timeout | RecvError string

text \<open>The peer during one \<^verbatim>\<open>send_command\<close>: whether \<^verbatim>\<open>sendall\<close> raises, then the reads.\<close>

record exchange =
  sendall_raises :: "string option"
  recvs :: "recv_event list"

subsection \<open>\<^verbatim>\<open>MayaConnection\<close>\<close>

text \<open>\<^verbatim>\<open>connect\<close>: \<open>peer\<close> is the socket the operating system gives, if the server accepts.\<close>

definition connect :: "socket option \<Rightarrow> connection \<Rightarrow> bool \<times> connection" where
  "connect peer c =
     (case sock c of
        Some _ \<Rightarrow> (True, c)
      | None \<Rightarrow>
          (case peer of
             Some fd \<Rightarrow> (True, c\<lparr>sock := Some fd\<rparr>)
           | None \<Rightarrow> (False, c\<lparr>sock := None\<rparr>)))"

definition disconnect :: "connection \<Rightarrow> connection" where
  "disconnect c = (case sock c of Some _ \<Rightarrow> c\<lparr>sock := None\<rparr> | None \<Rightarrow> c)"

text \<open>The code after the loop of \<^verbatim>\<open>receive_full_response\<close>.\<close>

definition after_loop :: "'f loads \<Rightarrow> bytes list \<Rightarrow> 'f failure + bytes" where
  "after_loop loads chunks =
     (if chunks \<noteq> [] then
        (case loads (concat chunks) of
           Parsed _ \<Rightarrow> Inr (concat chunks)
         | JSONDecodeError \<Rightarrow> Inl (Exception (JStr ''Incomplete JSON response received''))
         | UnicodeDecodeError \<Rightarrow> Inl DecodeFailure)
      else Inl (Exception (JStr ''No data received'')))"

text \<open>The loop, with the list \<^verbatim>\<open>chunks\<close> as its state.\<close>

fun receive_loop :: "'f loads \<Rightarrow> recv_event list \<Rightarrow> bytes list \<Rightarrow> 'f failure + bytes" where
  "receive_loop loads [] chunks = after_loop loads chunks"
| "receive_loop loads (Timeout # es) chunks = after_loop loads chunks"
| "receive_loop loads (RecvError m # es) chunks = Inl (SocketFailure m)"
| "receive_loop loads (Data chunk # es) chunks =
     (if chunk = [] then
        (if chunks = []
         then Inl (Exception (JStr ''Connection closed before receiving any data''))
         else after_loop loads chunks)
      else
        (case loads (concat (chunks @ [chunk])) of
           Parsed _ \<Rightarrow> Inr (concat (chunks @ [chunk]))
         | JSONDecodeError \<Rightarrow> receive_loop loads es (chunks @ [chunk])
         | UnicodeDecodeError \<Rightarrow> Inl DecodeFailure))"

definition receive_full_response :: "'f loads \<Rightarrow> recv_event list \<Rightarrow> 'f failure + bytes" where
  "receive_full_response loads es = receive_loop loads es []"

text \<open>
  The part of \<^verbatim>\<open>send_command\<close> after the response has been received:
  \<^verbatim>\<open>response.get\<close> raises when the response is not a dictionary.
\<close>

definition read_response :: "'f loads \<Rightarrow> bytes \<Rightarrow> 'f failure + 'f json" where
  "read_response loads response_data =
     (case loads response_data of
        JSONDecodeError \<Rightarrow> Inl JSONFailure
      | UnicodeDecodeError \<Rightarrow> Inl DecodeFailure
      | Parsed response \<Rightarrow>
          (case response of
             JObj kvs \<Rightarrow>
               (if map_of kvs ''status'' = Some (JStr ''error'')
                then Inl (Exception (case map_of kvs ''message'' of
                                       Some m \<Rightarrow> m
                                     | None \<Rightarrow> JStr ''Unknown error from Maya''))
                else Inr (case map_of kvs ''result'' of Some r \<Rightarrow> r | None \<Rightarrow> JObj []))
           | _ \<Rightarrow> Inl (AttributeFailure (no_attribute response ''get''))))"

text \<open>
  \<^verbatim>\<open>send_command\<close>: the result or the failure raised, the connection afterwards and
  the bytes written to the socket. \<open>params = None\<close> is the default argument.
\<close>

definition send_command ::
  "'f loads \<Rightarrow> ('f \<Rightarrow> string) \<Rightarrow> exchange \<Rightarrow> connection \<Rightarrow> string \<Rightarrow>
   (string \<times> 'f json) list option \<Rightarrow> ('f failure + 'f json) \<times> connection \<times> bytes list" where
  "send_command loads float_repr x c command_type params =
     (case sock c of
        None \<Rightarrow> (Inl (Exception (JStr ''Not connected to Maya'')), c, [])
      | Some _ \<Rightarrow>
          (let cmd = JObj [(''command'', JStr command_type),
                           (''params'', JObj (case params of None \<Rightarrow> [] | Some ps \<Rightarrow> ps))]
           in (case sendall_raises x of
                 Some m \<Rightarrow> (Inl (SocketFailure m), c\<lparr>sock := None\<rparr>, [])
               | None \<Rightarrow>
                   (case receive_full_response loads (recvs x) of
                      Inl e \<Rightarrow> (Inl e, c\<lparr>sock := None\<rparr>, [dumps float_repr cmd])
                    | Inr response_data \<Rightarrow>
                        (case read_response loads response_data of
                           Inl e \<Rightarrow> (Inl e, c\<lparr>sock := None\<rparr>, [dumps float_repr cmd])
                         | Inr result \<Rightarrow> (Inr result, c, [dumps float_repr cmd]))))))"

subsection \<open>The singleton: \<^verbatim>\<open>get_maya_connection\<close>\<close>

text \<open>
  What the accessor returns is either a connection object or another Python value.
  \<open>g\<close> is the global \<^verbatim>\<open>_maya_connection\<close>, \<open>probe\<close> the peer during the probe
  command, \<open>peer\<close> the socket a new \<^verbatim>\<open>connect\<close> would get.
\<close>

datatype 'f returned = Connection connection | Value "'f json"

definition create_connection ::
  "socket option \<Rightarrow> ('f failure + 'f returned) \<times> connection option" where
  "create_connection peer =
     (case connect peer \<lparr>host = ''localhost'', port = 9876, sock = None\<rparr> of
        (True, c) \<Rightarrow> (Inr (Connection c), Some c)
      | (False, c) \<Rightarrow> (Inl (Exception (JStr ''Failed to connect to Maya'')), None))"

definition get_maya_connection ::
  "'f loads \<Rightarrow> ('f \<Rightarrow> string) \<Rightarrow> exchange \<Rightarrow> socket option \<Rightarrow> connection option \<Rightarrow>
   ('f failure + 'f returned) \<times> connection option" where
  "get_maya_connection loads float_repr probe peer g =
     (case g of
        None \<Rightarrow> create_connection peer
      | Some c \<Rightarrow>
          (case send_command loads float_repr probe c ''about'' None of
             (Inl e, c', w) \<Rightarrow> create_connection peer
           | (Inr result, c', w) \<Rightarrow>
               (case result of
                  JObj kvs \<Rightarrow>
                    (Inr (Value (case map_of kvs ''enabled'' of
                                   Some v \<Rightarrow> v
                                 | None \<Rightarrow> JBool False)),
                     Some c')
                | _ \<Rightarrow> create_connection peer)))"

subsection \<open>The tool \<^verbatim>\<open>modify_object\<close>\<close>

text \<open>The dictionary \<^verbatim>\<open>params\<close> the tool builds; \<open>None\<close> is an argument left unset.\<close>

definition modify_object_params ::
  "string \<Rightarrow> 'f json option \<Rightarrow> 'f json option \<Rightarrow> 'f json option \<Rightarrow> bool option \<Rightarrow>
   (string \<times> 'f json) list" where
  "modify_object_params name location rotation scale visible =
     [(''name'', JStr name)]
     @ (case location of Some v \<Rightarrow> [(''location'', v)] | None \<Rightarrow> [])
     @ (case rotation of Some v \<Rightarrow> [(''rotation'', v)] | None \<Rightarrow> [])
     @ (case scale of Some v \<Rightarrow> [(''scale'', v)] | None \<Rightarrow> [])
     @ (case visible of Some b \<Rightarrow> [(''visible'', JBool b)] | None \<Rightarrow> [])"

text \<open>
  The tool itself. The text it returns is kept structured: \<open>Modified_object v\<close> is
  \<^verbatim>\<open>f"Modified object: {v}"\<close> and \<open>Error_modifying_object e\<close> is
  \<^verbatim>\<open>f"Error modifying object: {str(e)}"\<close>. \<open>x\<close> is the peer during the tool's own
  \<^verbatim>\<open>send_command\<close>; the object the accessor returns is the global one, so the global
  follows what \<^verbatim>\<open>send_command\<close> does to it.
\<close>

datatype 'f tool_text = Modified_object "'f json" | Error_modifying_object "'f failure"

definition subscript_name :: "'f json \<Rightarrow> 'f failure + 'f json" where
  "subscript_name result =
     (case result of
        JObj kvs \<Rightarrow> (case map_of kvs ''name'' of
                       Some v \<Rightarrow> Inr v
                     | None \<Rightarrow> Inl (KeyFailure ''name''))
      | _ \<Rightarrow> Inl (TypeFailure (type_name result)))"

definition modify_object_tool ::
  "'f loads \<Rightarrow> ('f \<Rightarrow> string) \<Rightarrow> exchange \<Rightarrow> socket option \<Rightarrow> exchange \<Rightarrow>
   connection option \<Rightarrow> string \<Rightarrow> 'f json option \<Rightarrow> 'f json option \<Rightarrow> 'f json option \<Rightarrow>
   bool option \<Rightarrow> 'f tool_text \<times> connection option \<times> bytes list" where
  "modify_object_tool loads float_repr probe peer x g name location rotation scale visible =
     (case get_maya_connection loads float_repr probe peer g of
        (Inl e, g') \<Rightarrow> (Error_modifying_object e, g', [])
      | (Inr (Value v), g') \<Rightarrow>
          (Error_modifying_object (AttributeFailure (no_attribute v ''send_command'')), g', [])
      | (Inr (Connection maya), g') \<Rightarrow>
          (case send_command loads float_repr x maya ''modify_object''
                  (Some (modify_object_params name location rotation scale visible)) of
             (Inl e, maya', w) \<Rightarrow> (Error_modifying_object e, Some maya', w)
           | (Inr result, maya', w) \<Rightarrow>
               (case subscript_name result of
                  Inl e \<Rightarrow> (Error_modifying_object e, Some maya', w)
                | Inr v \<Rightarrow> (Modified_object v, Some maya', w))))"

section \<open>Concrete collaborators\<close>

text \<open>
  To run the definitions on concrete inputs: a decoder given by a finite table of
  documents, and a small host whose scene is the list of its transform nodes with
  their world translations (coordinates are integers here).
\<close>

definition table_loads :: "(bytes \<times> 'f json) list \<Rightarrow> 'f loads" where
  "table_loads tbl b = (case map_of tbl b of Some v \<Rightarrow> Parsed v | None \<Rightarrow> JSONDecodeError)"

type_synonym toy_scene = "(string \<times> int list) list"

definition toy_translate :: "string list \<Rightarrow> 'f json \<Rightarrow> toy_scene \<Rightarrow> toy_scene" where
  "toy_translate obj v s =
     (case v of
        JArr [JInt x, JInt y, JInt z] \<Rightarrow>
          map (\<lambda>np. if fst np \<in> set obj then (fst np, [x, y, z]) else np) s
      | _ \<Rightarrow> s)"

definition toy_cmds :: "(int, toy_scene) maya_cmds" where
  "toy_cmds =
     \<lparr>cmds_file_sn = (\<lambda>s. Inr []),
      cmds_ls_transforms = (\<lambda>s. Inr (map fst s)),
      cmds_ls_materials = (\<lambda>s. Inr [''lambert1'']),
      cmds_ls = (\<lambda>name s. Inr (filter (\<lambda>n. JStr n = name) (map fst s))),
      cmds_nodeType = (\<lambda>n s. Inr ''transform''),
      cmds_polyCube =
        (\<lambda>name s. case name of
            JStr n \<Rightarrow> Inr ([n, ''polyCube1''], s @ [(n, [0, 0, 0])])
          | _ \<Rightarrow> Inl (TypeError ''Invalid arguments for flag name'')),
      cmds_xform =
        (\<lambda>obj a v s. if a = Translation then Inr (toy_translate obj v s) else Inr s),
      cmds_xform_q =
        (\<lambda>obj a s. case obj of
            [n] \<Rightarrow> (case map_of s n of
                      Some p \<Rightarrow> Inr (if a = Translation then p else [0, 0, 0])
                    | None \<Rightarrow> Inl (HostError ''No object matches name''))
          | _ \<Rightarrow> Inl (HostError ''No object matches name'')),
      cmds_setAttr = (\<lambda>a v s. Inr s),
      cmds_getAttr = (\<lambda>a s. Inr (JBool True)),
      round2 = (\<lambda>x. x)\<rparr>"

section \<open>Properties of the plugin's dispatch\<close>

lemma handlers_get_unregistered:
  "name \<noteq> ''get_scene_info'' \<Longrightarrow> name \<noteq> ''create_object'' \<Longrightarrow>
   handlers_get (JStr name) = Inr None"
  by (simp add: handlers_get_def handlers_def)

lemma internal_unregistered:
  assumes "name \<noteq> ''get_scene_info''" "name \<noteq> ''create_object''"
    and "map_of kvs ''command'' = Some (JStr name)"
  shows "execute_command_internal cmds (JObj kvs) s = (Inr JNull, s)"
  using assms by (simp add: execute_command_internal_def py_get_def handlers_get_unregistered)

lemma execute_command_unregistered:
  assumes "name \<noteq> ''get_scene_info''" "name \<noteq> ''create_object''"
    and "map_of kvs ''command'' = Some (JStr name)"
  shows "fst (execute_command cmds t (JObj kvs) s) = JNull"
    and "fst (snd (execute_command cmds t (JObj kvs) s)) = s"
  using assms
  by (simp_all add: execute_command_def py_get_def internal_unregistered Let_def
      executeInMainThreadWithResult_def direct_call_def)

lemma handlers_never_modify: "handlers_get cmd_type \<noteq> Inr (Some Method_modify_object)"
  by (cases cmd_type) (auto simp: handlers_get_def handlers_def)

text \<open>
  C9. A command dictionary whose name is a string other than \<^verbatim>\<open>get_scene_info\<close> and
  \<^verbatim>\<open>create_object\<close> (so also \<^verbatim>\<open>about\<close>, \<^verbatim>\<open>modify_object\<close> and \<^verbatim>\<open>delete_object\<close>):
  \<^verbatim>\<open>_execute_command_internal\<close> returns \<^verbatim>\<open>None\<close> and leaves the scene alone,
  \<^verbatim>\<open>execute_command\<close> returns \<^verbatim>\<open>None\<close> on whichever thread it is called, and the
  wrapper writes the four bytes \<^verbatim>\<open>null\<close> to the open socket. No command name makes
  the dispatch table return the method \<^verbatim>\<open>modify_object\<close>.
\<close>

theorem unregistered_command_writes_null:
  assumes "name \<noteq> ''get_scene_info''" and "name \<noteq> ''create_object''"
    and "map_of kvs ''command'' = Some (JStr name)"
  shows "execute_command_internal cmds (JObj kvs) s = (Inr JNull, s)
       \<and> fst (execute_command cmds t (JObj kvs) s) = JNull
       \<and> sent (execute_wrapper float_repr cmds
                 (st\<lparr>command := Some (JObj kvs), closed := False\<rparr>))
           = sent st @ [''null'']
       \<and> (\<forall>cmd_type. handlers_get cmd_type \<noteq> Inr (Some Method_modify_object))"
proof -
  obtain r s' ex where e: "execute_command cmds OwnerThread (JObj kvs) (scene st) = (r, s', ex)"
    by (cases "execute_command cmds OwnerThread (JObj kvs) (scene st)") auto
  have "r = JNull"
    using execute_command_unregistered(1)[OF assms, of cmds OwnerThread "scene st"] e by simp
  then have w:
    "sent (execute_wrapper float_repr cmds (st\<lparr>command := Some (JObj kvs), closed := False\<rparr>))
       = sent st @ [''null'']"
    using e by (simp add: execute_wrapper_def)
  show ?thesis
    using internal_unregistered[OF assms] execute_command_unregistered(1)[OF assms] w
      handlers_never_modify by (intro conjI allI)
qed

theorem unregistered_command_writes_null_witness:
  "execute_command_internal toy_cmds
      (JObj [(''command'', JStr ''modify_object''),
             (''params'', JObj [(''name'', JStr ''pCube1'')])]) []
     = (Inr JNull, [])
   \<and> fst (execute_command toy_cmds OwnerThread
      (JObj [(''command'', JStr ''modify_object''),
             (''params'', JObj [(''name'', JStr ''pCube1'')])]) [])
     = JNull
   \<and> sent (execute_wrapper int_repr toy_cmds
        ((handler_start [])\<lparr>command := Some (JObj [(''command'', JStr ''modify_object''),
             (''params'', JObj [(''name'', JStr ''pCube1'')])]), closed := False\<rparr>))
     = sent (handler_start [] :: (int, toy_scene) handler_state) @ [''null'']"
proof -
  have h1: "''modify_object'' \<noteq> ''get_scene_info''" by simp
  have h2: "''modify_object'' \<noteq> ''create_object''" by simp
  have h3: "map_of [(''command'', JStr ''modify_object''),
                    (''params'', JObj [(''name'', JStr ''pCube1'')])] ''command''
            = Some (JStr ''modify_object'' :: int json)" by simp
  from unregistered_command_writes_null[OF h1 h2 h3,
      of toy_cmds "[]" OwnerThread int_repr "handler_start []"]
  show ?thesis by (elim conjE) (intro conjI, assumption+)
qed

section \<open>Properties of the handlers\<close>





lemma create_object_toy_default:
  "create_object toy_cmds (JObj [(''name'', JStr ''table'')]) []
    = (Inr (JObj [(''name'', JStr ''pCube1''), (''location'', JArr [JInt 0, JInt 0, JInt 0])]),
       [(''pCube1'', [0, 0, 0])])"
  by (simp add: create_object_def py_get_def toy_cmds_def toy_translate_def)



lemma scene_objects_ok:
  assumes "\<forall>obj \<in> set (take (10 - i) objs).
             (\<exists>x y z r. cmds_xform_q cmds [obj] Translation s = Inr (x # y # z # r))
             \<and> (\<exists>ty. cmds_nodeType cmds obj s = Inr ty)"
  shows "\<exists>os. scene_objects cmds s i objs acc = Inr (acc @ os)
             \<and> length os = min (length objs) (10 - i)
             \<and> (\<forall>ob \<in> set os. \<exists>n ty loc.
                   ob = JObj [(''name'', JStr n), (''type'', JStr ty), (''location'', loc)])"
  using assms
proof (induction objs arbitrary: i acc)
  case Nil
  then show ?case by simp
next
  case (Cons obj rest)
  show ?case
  proof (cases "i \<ge> 10")
    case True
    then show ?thesis by simp
  next
    case False
    then obtain k where k: "10 - i = Suc k" by (cases "10 - i") auto
    from Cons.prems k obtain x y z r ty where
      q: "cmds_xform_q cmds [obj] Translation s = Inr (x # y # z # r)"
      and t: "cmds_nodeType cmds obj s = Inr ty"
      by auto
    have rest: "\<forall>obj \<in> set (take (10 - (i + 1)) rest).
             (\<exists>x y z r. cmds_xform_q cmds [obj] Translation s = Inr (x # y # z # r))
             \<and> (\<exists>ty. cmds_nodeType cmds obj s = Inr ty)"
    proof -
      have "10 - (i + 1) = k" using k by arith
      then show ?thesis using Cons.prems k by simp
    qed
    let ?o = "JObj [(''name'', JStr obj), (''type'', JStr ty),
                    (''location'', JArr [JFloat (round2 cmds x), JFloat (round2 cmds y),
                                         JFloat (round2 cmds z)])]"
    from Cons.IH[OF rest, of "acc @ [?o]"] obtain os where
      os: "scene_objects cmds s (i + 1) rest (acc @ [?o]) = Inr ((acc @ [?o]) @ os)"
      "length os = min (length rest) (10 - (i + 1))"
      "\<forall>ob \<in> set os. \<exists>n ty loc.
          ob = JObj [(''name'', JStr n), (''type'', JStr ty), (''location'', loc)]"
      by blast
    have "scene_objects cmds s i (obj # rest) acc = Inr (acc @ (?o # os))"
      using False q t os(1) by simp
    moreover have "length (?o # os) = min (length (obj # rest)) (10 - i)"
      using os(2) k by (simp add: min_def) arith
    moreover have "\<forall>ob \<in> set (?o # os). \<exists>n ty loc.
          ob = JObj [(''name'', JStr n), (''type'', JStr ty), (''location'', loc)]"
      using os(3) by simp
    ultimately show ?thesis by blast
  qed
qed

text \<open>
  C8. When the host answers the queries of \<^verbatim>\<open>get_scene_info\<close> (the scene name, the
  transforms, the materials, and for each of the first ten transforms three world
  coordinates and a node type), the handler returns the dictionary with the keys
  \<^verbatim>\<open>name\<close>, \<^verbatim>\<open>object_count\<close>, \<^verbatim>\<open>objects\<close> and \<^verbatim>\<open>materials_count\<close> and leaves the
  scene alone: \<^verbatim>\<open>object_count\<close> is the number of transforms, \<^verbatim>\<open>objects\<close> has
  \<open>min object_count 10\<close> entries, each entry has exactly the keys \<^verbatim>\<open>name\<close>,
  \<^verbatim>\<open>type\<close>, \<^verbatim>\<open>location\<close>, and with no transform the count is 0 and the list empty.
\<close>

theorem get_scene_info_shape:
  assumes "cmds_file_sn cmds s = Inr sn"
    and "cmds_ls_transforms cmds s = Inr all_objects"
    and "cmds_ls_materials cmds s = Inr materials"
    and "\<forall>obj \<in> set (take 10 all_objects).
           (\<exists>x y z r. cmds_xform_q cmds [obj] Translation s = Inr (x # y # z # r))
           \<and> (\<exists>ty. cmds_nodeType cmds obj s = Inr ty)"
  shows "\<exists>objects.
           get_scene_info cmds params s =
             (Inr (JObj [(''name'', JStr (if sn = [] then ''untitled'' else sn)),
                         (''object_count'', JInt (int (length all_objects))),
                         (''objects'', JArr objects),
                         (''materials_count'', JInt (int (length materials)))]), s)
         \<and> length objects = min (length all_objects) 10
         \<and> (\<forall>ob \<in> set objects. \<exists>n ty loc.
               ob = JObj [(''name'', JStr n), (''type'', JStr ty), (''location'', loc)])
         \<and> (all_objects = [] \<longrightarrow> objects = [])"
proof -
  from scene_objects_ok[of 0 all_objects cmds s "[]"] assms(4)
  obtain os where os: "scene_objects cmds s 0 all_objects [] = Inr os"
    "length os = min (length all_objects) 10"
    "\<forall>ob \<in> set os. \<exists>n ty loc.
        ob = JObj [(''name'', JStr n), (''type'', JStr ty), (''location'', loc)]"
    by auto
  have "get_scene_info cmds params s =
             (Inr (JObj [(''name'', JStr (if sn = [] then ''untitled'' else sn)),
                         (''object_count'', JInt (int (length all_objects))),
                         (''objects'', JArr os),
                         (''materials_count'', JInt (int (length materials)))]), s)"
    using assms(1-3) os(1) by (simp add: get_scene_info_def scene_info_try_def)
  moreover have "all_objects = [] \<longrightarrow> os = []" using os(2) by auto
  ultimately show ?thesis using os(2,3) by (intro exI[of _ os] conjI)
qed

theorem get_scene_info_shape_witness:
  "(\<exists>objects.
      get_scene_info toy_cmds (JObj []) [(''pCube1'', [1, 2, 3]), (''persp'', [28, 21, 28])] =
        (Inr (JObj [(''name'', JStr ''untitled''),
                    (''object_count'', JInt 2),
                    (''objects'', JArr objects),
                    (''materials_count'', JInt 1)]),
         [(''pCube1'', [1, 2, 3]), (''persp'', [28, 21, 28])])
      \<and> length objects = 2)
   \<and> (\<exists>objects.
      get_scene_info toy_cmds (JObj []) [] =
        (Inr (JObj [(''name'', JStr ''untitled''),
                    (''object_count'', JInt 0),
                    (''objects'', JArr objects),
                    (''materials_count'', JInt 1)]), [])
      \<and> objects = [])"
proof -
  let ?s = "[(''pCube1'', [1, 2, 3]), (''persp'', [28, 21, 28])] :: toy_scene"
  have a1: "cmds_file_sn toy_cmds ?s = Inr []"
    and a2: "cmds_ls_transforms toy_cmds ?s = Inr [''pCube1'', ''persp'']"
    and a3: "cmds_ls_materials toy_cmds ?s = Inr [''lambert1'']"
    and a4: "\<forall>obj \<in> set (take 10 [''pCube1'', ''persp'']).
           (\<exists>x y z r. cmds_xform_q toy_cmds [obj] Translation ?s = Inr (x # y # z # r))
           \<and> (\<exists>ty. cmds_nodeType toy_cmds obj ?s = Inr ty)"
    by (simp_all add: toy_cmds_def)
  have b1: "cmds_file_sn toy_cmds ([] :: toy_scene) = Inr []"
    and b2: "cmds_ls_transforms toy_cmds ([] :: toy_scene) = Inr []"
    and b3: "cmds_ls_materials toy_cmds ([] :: toy_scene) = Inr [''lambert1'']"
    and b4: "\<forall>obj \<in> set (take 10 []).
           (\<exists>x y z r. cmds_xform_q toy_cmds [obj] Translation ([] :: toy_scene) = Inr (x # y # z # r))
           \<and> (\<exists>ty. cmds_nodeType toy_cmds obj ([] :: toy_scene) = Inr ty)"
    by (simp_all add: toy_cmds_def)
  from get_scene_info_shape[OF a1 a2 a3 a4, of "JObj []"] have A:
    "\<exists>objects.
      get_scene_info toy_cmds (JObj []) ?s =
        (Inr (JObj [(''name'', JStr ''untitled''),
                    (''object_count'', JInt 2),
                    (''objects'', JArr objects),
                    (''materials_count'', JInt 1)]), ?s)
      \<and> length objects = 2"
    by auto
  from get_scene_info_shape[OF b1 b2 b3 b4, of "JObj []"] have B:
    "\<exists>objects.
      get_scene_info toy_cmds (JObj []) [] =
        (Inr (JObj [(''name'', JStr ''untitled''),
                    (''object_count'', JInt 0),
                    (''objects'', JArr objects),
                    (''materials_count'', JInt 1)]), [])
      \<and> objects = []"
    by auto
  show ?thesis using A B by (rule conjI)
qed

section \<open>Properties of the MCP server's connection\<close>

lemma receive_loop_skips:
  assumes "[] \<notin> set cs"
    and "\<forall>k. 0 < k \<and> k \<le> length cs \<longrightarrow> loads (concat (acc @ take k cs)) = JSONDecodeError"
  shows "receive_loop loads (map Data cs @ rest) acc = receive_loop loads rest (acc @ cs)"
  using assms
proof (induction cs arbitrary: acc)
  case Nil
  then show ?case by simp
next
  case (Cons c cs)
  have c: "c \<noteq> []" using Cons.prems(1) by auto
  have "loads (concat (acc @ take 1 (c # cs))) = JSONDecodeError"
    using Cons.prems(2) by (metis One_nat_def le_add1 length_Cons less_one plus_1_eq_Suc zero_less_one)
  then have first: "loads (concat (acc @ [c])) = JSONDecodeError" by simp
  have later: "\<forall>k. 0 < k \<and> k \<le> length cs \<longrightarrow>
                 loads (concat ((acc @ [c]) @ take k cs)) = JSONDecodeError"
  proof (intro allI impI)
    fix k assume k: "0 < k \<and> k \<le> length cs"
    then have "0 < Suc k \<and> Suc k \<le> length (c # cs)" by simp
    then have "loads (concat (acc @ take (Suc k) (c # cs))) = JSONDecodeError"
      using Cons.prems(2) by blast
    then show "loads (concat ((acc @ [c]) @ take k cs)) = JSONDecodeError" by simp
  qed
  have "[] \<notin> set cs" using Cons.prems(1) by auto
  from Cons.IH[OF this later] have "receive_loop loads (map Data cs @ rest) (acc @ [c])
      = receive_loop loads rest ((acc @ [c]) @ cs)" .
  then show ?case using c first by simp
qed

lemma after_loop_unparsed:
  "chunks \<noteq> [] \<Longrightarrow> loads (concat chunks) = JSONDecodeError \<Longrightarrow>
   after_loop loads chunks = Inl (Exception (JStr ''Incomplete JSON response received''))"
  by (simp add: after_loop_def)

lemma after_loop_parsed:
  "chunks \<noteq> [] \<Longrightarrow> loads (concat chunks) = Parsed w \<Longrightarrow>
   after_loop loads chunks = Inr (concat chunks)"
  by (simp add: after_loop_def)

text \<open>
  C7 (amended). Let the reads so far have returned the non-empty chunks \<open>cs\<close>, none of
  which completed a document (after each, the accumulated bytes raised
  \<^verbatim>\<open>JSONDecodeError\<close>). Then:
  \<^item> a next non-empty chunk with which the accumulated bytes parse makes
    \<^verbatim>\<open>receive_full_response\<close> return exactly those bytes, whatever would follow;
  \<^item> an empty read as the very first read fails with
    \<^verbatim>\<open>Connection closed before receiving any data\<close>;
  \<^item> an empty read or a timeout after some chunks fails with
    \<^verbatim>\<open>Incomplete JSON response received\<close>; at the level of the loop, for any
    non-empty accumulator both end the loop and the accumulated bytes are returned if
    they parse and the call fails with that message if they raise \<^verbatim>\<open>JSONDecodeError\<close>;
  \<^item> a timeout before any chunk fails with \<^verbatim>\<open>No data received\<close>.
\<close>

theorem receive_full_response_outcomes:
  assumes "[] \<notin> set cs"
    and "\<forall>k. 0 < k \<and> k \<le> length cs \<longrightarrow> loads (concat (take k cs)) = JSONDecodeError"
  shows "(c \<noteq> [] \<and> loads (concat cs @ c) = Parsed v \<longrightarrow>
            receive_full_response loads (map Data cs @ Data c # es) = Inr (concat cs @ c))
       \<and> receive_full_response loads (Data [] # es) =
            Inl (Exception (JStr ''Connection closed before receiving any data''))
       \<and> (cs \<noteq> [] \<longrightarrow>
            receive_full_response loads (map Data cs @ Data [] # es) =
              Inl (Exception (JStr ''Incomplete JSON response received''))
          \<and> receive_full_response loads (map Data cs @ Timeout # es) =
              Inl (Exception (JStr ''Incomplete JSON response received'')))
       \<and> (chunks \<noteq> [] \<and> loads (concat chunks) = Parsed w \<longrightarrow>
            receive_loop loads (Data [] # es) chunks = Inr (concat chunks)
          \<and> receive_loop loads (Timeout # es) chunks = Inr (concat chunks))
       \<and> (chunks \<noteq> [] \<and> loads (concat chunks) = JSONDecodeError \<longrightarrow>
            receive_loop loads (Data [] # es) chunks =
              Inl (Exception (JStr ''Incomplete JSON response received''))
          \<and> receive_loop loads (Timeout # es) chunks =
              Inl (Exception (JStr ''Incomplete JSON response received'')))
       \<and> receive_full_response loads (Timeout # es) =
            Inl (Exception (JStr ''No data received''))"
proof -
  have skip: "receive_loop loads (map Data cs @ rest) [] = receive_loop loads rest cs" for rest
    using receive_loop_skips[of cs loads "[]" rest] assms by simp
  have p1: "c \<noteq> [] \<and> loads (concat cs @ c) = Parsed v \<longrightarrow>
            receive_full_response loads (map Data cs @ Data c # es) = Inr (concat cs @ c)"
    by (simp add: receive_full_response_def skip)
  have p2: "receive_full_response loads (Data [] # es) =
            Inl (Exception (JStr ''Connection closed before receiving any data''))"
    by (simp add: receive_full_response_def)
  have p3: "cs \<noteq> [] \<longrightarrow>
            receive_full_response loads (map Data cs @ Data [] # es) =
              Inl (Exception (JStr ''Incomplete JSON response received''))
          \<and> receive_full_response loads (map Data cs @ Timeout # es) =
              Inl (Exception (JStr ''Incomplete JSON response received''))"
  proof
    assume ne: "cs \<noteq> []"
    then have "0 < length cs \<and> length cs \<le> length cs" by simp
    then have "loads (concat (take (length cs) cs)) = JSONDecodeError" using assms(2) by blast
    then have "loads (concat cs) = JSONDecodeError" by simp
    then show "receive_full_response loads (map Data cs @ Data [] # es) =
              Inl (Exception (JStr ''Incomplete JSON response received''))
          \<and> receive_full_response loads (map Data cs @ Timeout # es) =
              Inl (Exception (JStr ''Incomplete JSON response received''))"
      using ne by (simp add: receive_full_response_def skip after_loop_unparsed)
  qed
  have p4: "chunks \<noteq> [] \<and> loads (concat chunks) = Parsed w \<longrightarrow>
            receive_loop loads (Data [] # es) chunks = Inr (concat chunks)
          \<and> receive_loop loads (Timeout # es) chunks = Inr (concat chunks)"
    by (simp add: after_loop_parsed)
  have p5: "chunks \<noteq> [] \<and> loads (concat chunks) = JSONDecodeError \<longrightarrow>
            receive_loop loads (Data [] # es) chunks =
              Inl (Exception (JStr ''Incomplete JSON response received''))
          \<and> receive_loop loads (Timeout # es) chunks =
              Inl (Exception (JStr ''Incomplete JSON response received''))"
    by (simp add: after_loop_unparsed)
  have p6: "receive_full_response loads (Timeout # es) =
            Inl (Exception (JStr ''No data received''))"
    by (simp add: receive_full_response_def after_loop_def)
  show ?thesis using p1 p2 p3 p4 p5 p6 by (intro conjI)
qed

theorem receive_full_response_outcomes_witness:
  "receive_full_response (table_loads [(''[1, 2]'', JArr [JInt 1, JInt 2 :: int json])])
      [Data ''[1,'', Data '' 2]'', Data ''[3]''] = Inr ''[1, 2]''
   \<and> receive_full_response (table_loads [(''[1, 2]'', JArr [JInt 1, JInt 2 :: int json])])
      [Data ''[1,'', Data [], Data '' 2]''] =
        Inl (Exception (JStr ''Incomplete JSON response received''))
   \<and> receive_full_response (table_loads [(''[1, 2]'', JArr [JInt 1, JInt 2 :: int json])])
      [Data ''[1,'', Timeout] =
        Inl (Exception (JStr ''Incomplete JSON response received''))"
proof -
  let ?loads = "table_loads [(''[1, 2]'', JArr [JInt 1, JInt 2 :: int json])]"
  have h1: "[] \<notin> set [''[1,'']" by simp
  have h2: "\<forall>k. 0 < k \<and> k \<le> length [''[1,''] \<longrightarrow>
              ?loads (concat (take k [''[1,''])) = JSONDecodeError"
  proof (intro allI impI)
    fix k :: nat assume "0 < k \<and> k \<le> length [''[1,'']"
    then have "k = 1" by simp
    then show "?loads (concat (take k [''[1,''])) = JSONDecodeError"
      by (simp add: table_loads_def)
  qed
  have h3: "'' 2]'' \<noteq> [] \<and> ?loads (concat [''[1,''] @ '' 2]'') = Parsed (JArr [JInt 1, JInt 2])"
    by (simp add: table_loads_def)
  note t = receive_full_response_outcomes[OF h1 h2,
      of "'' 2]''" "JArr [JInt 1, JInt 2]" _ "[]"]
  have a: "receive_full_response ?loads [Data ''[1,'', Data '' 2]'', Data ''[3]''] = Inr ''[1, 2]''"
    using mp[OF t[of "[Data ''[3]'']", THEN conjunct1] h3] by simp
  have b: "receive_full_response ?loads [Data ''[1,'', Data [], Data '' 2]''] =
        Inl (Exception (JStr ''Incomplete JSON response received''))"
    using t[of "[Data '' 2]'']", THEN conjunct2, THEN conjunct2, THEN conjunct1] by simp
  have c: "receive_full_response ?loads [Data ''[1,'', Timeout] =
        Inl (Exception (JStr ''Incomplete JSON response received''))"
    using t[of "[]", THEN conjunct2, THEN conjunct2, THEN conjunct1] by simp
  show ?thesis using a b c by (intro conjI)
qed

text \<open>
  C7 (counterexample). The claim as stated fails when the timeout comes before any byte: nothing parses
  (the accumulated bytes are empty), and the failure is not the incomplete-response
  one.
\<close>

theorem receive_timeout_before_data_counterexample:
  "table_loads [(''[1, 2]'', JArr [JInt 1, JInt 2 :: int json])] (concat []) = JSONDecodeError
   \<and> receive_full_response (table_loads [(''[1, 2]'', JArr [JInt 1, JInt 2 :: int json])])
        [Timeout] = Inl (Exception (JStr ''No data received''))
   \<and> receive_full_response (table_loads [(''[1, 2]'', JArr [JInt 1, JInt 2 :: int json])])
        [Timeout] \<noteq> Inl (Exception (JStr ''Incomplete JSON response received''))"
  by (simp add: receive_full_response_def after_loop_def table_loads_def)






lemma handle_recv_parsed:
  assumes "data \<noteq> []" and "loads (buffer st @ data) = Parsed cmd"
  shows "handle_recv loads data st =
           st\<lparr>buffer := [], command := Some cmd, deferred := deferred st + 1\<rparr>"
  using assms by (simp add: handle_recv_def)

lemma execute_command_placement:
  assumes "map_of kvs ''command'' = Some (JStr name)"
  shows "snd (snd (execute_command cmds caller (JObj kvs) s)) =
           Some \<lparr>exec_command = JObj kvs,
                 exec_route = (if name \<in> {''create_object'', ''modify_object'', ''delete_object''}
                               then ViaExecuteInMainThreadWithResult else DirectCall),
                 exec_thread = (if name \<in> {''create_object'', ''modify_object'', ''delete_object''}
                                then OwnerThread else caller)\<rparr>"
proof (cases "name \<in> {''create_object'', ''modify_object'', ''delete_object''}")
  case True
  then have m: "is_mutating (JStr name :: 'a json)" by (simp add: is_mutating_def mutating_def)
  obtain r s' where o: "execute_command_internal cmds (JObj kvs) s = (r, s')"
    by (cases "execute_command_internal cmds (JObj kvs) s") auto
  show ?thesis using assms m True o
    by (cases r) (simp_all add: execute_command_def py_get_def executeInMainThreadWithResult_def)
next
  case False
  then have m: "\<not> is_mutating (JStr name :: 'a json)" by (simp add: is_mutating_def mutating_def)
  obtain r s' where o: "execute_command_internal cmds (JObj kvs) s = (r, s')"
    by (cases "execute_command_internal cmds (JObj kvs) s") auto
  show ?thesis using assms m False o
    by (cases r) (simp_all add: execute_command_def py_get_def direct_call_def)
qed

lemma execute_wrapper_executions:
  assumes "map_of kvs ''command'' = Some (JStr name)"
  shows "executions (execute_wrapper float_repr cmds (st\<lparr>command := Some (JObj kvs)\<rparr>)) =
           executions st @
             [\<lparr>exec_command = JObj kvs,
               exec_route = (if name \<in> {''create_object'', ''modify_object'', ''delete_object''}
                             then ViaExecuteInMainThreadWithResult else DirectCall),
               exec_thread = OwnerThread\<rparr>]"
proof -
  obtain r s' ex where e: "execute_command cmds OwnerThread (JObj kvs) (scene st) = (r, s', ex)"
    by (cases "execute_command cmds OwnerThread (JObj kvs) (scene st)") auto
  have "ex = Some \<lparr>exec_command = JObj kvs,
                 exec_route = (if name \<in> {''create_object'', ''modify_object'', ''delete_object''}
                               then ViaExecuteInMainThreadWithResult else DirectCall),
                 exec_thread = OwnerThread\<rparr>"
    using execute_command_placement[OF assms, of cmds OwnerThread "scene st"] e by simp
  then show ?thesis using e by (simp add: execute_wrapper_def)
qed

text \<open>
  C4 (amended). For every command dictionary: the read that completes it on the
  handling thread executes nothing, writes nothing and waits for nothing; it stores
  the command and queues one wrapper with \<^verbatim>\<open>executeDeferred\<close>. \<^verbatim>\<open>execute_command\<close>,
  called on a thread \<open>caller\<close>, goes through
  \<^verbatim>\<open>executeInMainThreadWithResult\<close> (so runs the dispatch on the owner thread) exactly
  when the name is \<^verbatim>\<open>create_object\<close>, \<^verbatim>\<open>modify_object\<close> or \<^verbatim>\<open>delete_object\<close>, and
  otherwise calls the dispatch directly on \<open>caller\<close>. Its one caller is the queued
  wrapper, which runs on the owner thread: there every command is executed,
  whatever its name.
\<close>

theorem commands_are_deferred_to_owner_thread:
  "(data \<noteq> [] \<and> loads (buffer st @ data) = Parsed (JObj kvs) \<longrightarrow>
      handle_recv loads data st =
        st\<lparr>buffer := [], command := Some (JObj kvs), deferred := deferred st + 1\<rparr>)
   \<and> (map_of kvs ''command'' = Some (JStr name) \<longrightarrow>
        snd (snd (execute_command cmds caller (JObj kvs) s)) =
          Some \<lparr>exec_command = JObj kvs,
                exec_route = (if name \<in> {''create_object'', ''modify_object'', ''delete_object''}
                              then ViaExecuteInMainThreadWithResult else DirectCall),
                exec_thread = (if name \<in> {''create_object'', ''modify_object'', ''delete_object''}
                               then OwnerThread else caller)\<rparr>
      \<and> executions (execute_wrapper float_repr cmds (st\<lparr>command := Some (JObj kvs)\<rparr>)) =
          executions st @
            [\<lparr>exec_command = JObj kvs,
              exec_route = (if name \<in> {''create_object'', ''modify_object'', ''delete_object''}
                            then ViaExecuteInMainThreadWithResult else DirectCall),
              exec_thread = OwnerThread\<rparr>])"
proof (intro conjI impI)
  assume "data \<noteq> [] \<and> loads (buffer st @ data) = Parsed (JObj kvs)"
  then show "handle_recv loads data st =
        st\<lparr>buffer := [], command := Some (JObj kvs), deferred := deferred st + 1\<rparr>"
    using handle_recv_parsed[of data loads st "JObj kvs"] by simp
next
  assume "map_of kvs ''command'' = Some (JStr name)"
  then show "snd (snd (execute_command cmds caller (JObj kvs) s)) =
          Some \<lparr>exec_command = JObj kvs,
                exec_route = (if name \<in> {''create_object'', ''modify_object'', ''delete_object''}
                              then ViaExecuteInMainThreadWithResult else DirectCall),
                exec_thread = (if name \<in> {''create_object'', ''modify_object'', ''delete_object''}
                               then OwnerThread else caller)\<rparr>"
    by (rule execute_command_placement)
next
  assume "map_of kvs ''command'' = Some (JStr name)"
  then show "executions (execute_wrapper float_repr cmds (st\<lparr>command := Some (JObj kvs)\<rparr>)) =
          executions st @
            [\<lparr>exec_command = JObj kvs,
              exec_route = (if name \<in> {''create_object'', ''modify_object'', ''delete_object''}
                            then ViaExecuteInMainThreadWithResult else DirectCall),
              exec_thread = OwnerThread\<rparr>]"
    by (rule execute_wrapper_executions)
qed

theorem commands_are_deferred_to_owner_thread_witness:
  "handle_recv
      (table_loads [(''[0]'', JObj [(''command'', JStr ''create_object''), (''params'', JObj [])])]
         :: int loads)
      ''[0]'' (handler_start ([] :: toy_scene))
     = (handler_start [])\<lparr>buffer := [],
          command := Some (JObj [(''command'', JStr ''create_object''), (''params'', JObj [])]),
          deferred := deferred (handler_start ([] :: toy_scene) :: (int, toy_scene) handler_state) + 1\<rparr>
   \<and> snd (snd (execute_command toy_cmds HandlingContext
        (JObj [(''command'', JStr ''create_object''), (''params'', JObj [])]) []))
     = Some \<lparr>exec_command = JObj [(''command'', JStr ''create_object''), (''params'', JObj [])],
             exec_route = ViaExecuteInMainThreadWithResult, exec_thread = OwnerThread\<rparr>
   \<and> snd (snd (execute_command toy_cmds HandlingContext
        (JObj [(''command'', JStr ''get_scene_info''), (''params'', JObj [])]) []))
     = Some \<lparr>exec_command = JObj [(''command'', JStr ''get_scene_info''), (''params'', JObj [])],
             exec_route = DirectCall, exec_thread = HandlingContext\<rparr>"
proof -
  let ?create = "[(''command'', JStr ''create_object''), (''params'', JObj [])]
                   :: (string \<times> int json) list"
  let ?info = "[(''command'', JStr ''get_scene_info''), (''params'', JObj [])]
                 :: (string \<times> int json) list"
  let ?st = "handler_start ([] :: toy_scene) :: (int, toy_scene) handler_state"
  have h: "''[0]'' \<noteq> [] \<and> table_loads [(''[0]'', JObj ?create)] (buffer ?st @ ''[0]'')
             = Parsed (JObj ?create)"
    by (simp add: table_loads_def handler_start_def)
  have c: "map_of ?create ''command'' = Some (JStr ''create_object'')" by simp
  have i: "map_of ?info ''command'' = Some (JStr ''get_scene_info'')" by simp
  have a: "handle_recv (table_loads [(''[0]'', JObj ?create)]) ''[0]'' ?st
     = ?st\<lparr>buffer := [], command := Some (JObj ?create), deferred := deferred ?st + 1\<rparr>"
    by (rule mp[OF commands_are_deferred_to_owner_thread[
          where data = "''[0]''" and loads = "table_loads [(''[0]'', JObj ?create)]"
            and st = ?st and kvs = ?create, THEN conjunct1] h])
  have b: "snd (snd (execute_command toy_cmds HandlingContext (JObj ?create) []))
     = Some \<lparr>exec_command = JObj ?create,
             exec_route = ViaExecuteInMainThreadWithResult, exec_thread = OwnerThread\<rparr>"
    using mp[OF commands_are_deferred_to_owner_thread[THEN conjunct2] c, THEN conjunct1,
        of toy_cmds HandlingContext "[]"]
    by simp
  have d: "snd (snd (execute_command toy_cmds HandlingContext (JObj ?info) []))
     = Some \<lparr>exec_command = JObj ?info,
             exec_route = DirectCall, exec_thread = HandlingContext\<rparr>"
    using mp[OF commands_are_deferred_to_owner_thread[THEN conjunct2] i, THEN conjunct1,
        of toy_cmds HandlingContext "[]"]
    by simp
  show ?thesis using a b d by (intro conjI)
qed

text \<open>
  C4 (counterexample). A \<^verbatim>\<open>get_scene_info\<close> command, not in the mutating set, arrives
  in one read. When the handling thread has finished with the read, nothing has been
  executed and nothing written: one wrapper is queued. The command is executed when
  the main thread runs the wrapper, and the thread that executes it is the owner
  thread, not the handling context.
\<close>

theorem read_only_command_is_deferred_counterexample:
  "executions (handle_client
      (table_loads [(''[0]'', JObj [(''command'', JStr ''get_scene_info''), (''params'', JObj [])])])
      int_repr toy_cmds (handler_start []) [Recv ''[0]'']) = []
   \<and> sent (handle_client
      (table_loads [(''[0]'', JObj [(''command'', JStr ''get_scene_info''), (''params'', JObj [])])])
      int_repr toy_cmds (handler_start []) [Recv ''[0]'']) = []
   \<and> deferred (handle_client
      (table_loads [(''[0]'', JObj [(''command'', JStr ''get_scene_info''), (''params'', JObj [])])])
      int_repr toy_cmds (handler_start []) [Recv ''[0]'']) = 1
   \<and> map exec_thread (executions (handle_client
      (table_loads [(''[0]'', JObj [(''command'', JStr ''get_scene_info''), (''params'', JObj [])])])
      int_repr toy_cmds (handler_start []) [Recv ''[0]'', MainThreadIdle])) = [OwnerThread]
   \<and> map exec_route (executions (handle_client
      (table_loads [(''[0]'', JObj [(''command'', JStr ''get_scene_info''), (''params'', JObj [])])])
      int_repr toy_cmds (handler_start []) [Recv ''[0]'', MainThreadIdle])) = [DirectCall]"
proof -
  let ?info = "[(''command'', JStr ''get_scene_info''), (''params'', JObj [])]
                 :: (string \<times> int json) list"
  let ?loads = "table_loads [(''[0]'', JObj ?info)]"
  let ?st = "handler_start ([] :: toy_scene) :: (int, toy_scene) handler_state"
  have r: "handle_client ?loads int_repr toy_cmds ?st [Recv ''[0]'']
             = ?st\<lparr>command := Some (JObj ?info), deferred := 1\<rparr>"
    by (simp add: handle_client_def handler_start_def handle_recv_def table_loads_def)
  have i: "map_of ?info ''command'' = Some (JStr ''get_scene_info'')" by simp
  have "handle_client ?loads int_repr toy_cmds ?st [Recv ''[0]'', MainThreadIdle]
          = step ?loads int_repr toy_cmds
              (handle_client ?loads int_repr toy_cmds ?st [Recv ''[0]'']) MainThreadIdle"
    by (simp add: handle_client_def)
  also have "\<dots> = execute_wrapper int_repr toy_cmds
                    ((?st\<lparr>deferred := 0\<rparr>)\<lparr>command := Some (JObj ?info)\<rparr>)"
    unfolding r by (simp add: handler_start_def)
  finally have w: "executions
        (handle_client ?loads int_repr toy_cmds ?st [Recv ''[0]'', MainThreadIdle])
      = [\<lparr>exec_command = JObj ?info, exec_route = DirectCall, exec_thread = OwnerThread\<rparr>]"
    using execute_wrapper_executions[OF i, of int_repr toy_cmds "?st\<lparr>deferred := 0\<rparr>"]
    by (simp add: handler_start_def)
  show ?thesis unfolding r w by (simp add: handler_start_def)
qed

section \<open>Where the programs depart from their description\<close>

text \<open>
  C1 (the code at a failing input). The singleton exists, the probe \<^verbatim>\<open>about\<close> is
  answered with \<^verbatim>\<open>{"status": "success", "result": {"enabled": true}}\<close>: the accessor
  returns the value \<^verbatim>\<open>True\<close> of the key \<^verbatim>\<open>enabled\<close>, not the connection object, and
  the singleton is kept.
\<close>

theorem get_maya_connection_returns_probe_value:
  "get_maya_connection
      (table_loads [(''[0]'', JObj [(''status'', JStr ''success''),
                                    (''result'', JObj [(''enabled'', JBool True)])])])
      int_repr \<lparr>sendall_raises = None, recvs = [Data ''[0]'']\<rparr> (Some 4)
      (Some \<lparr>host = ''localhost'', port = 9876, sock = Some 3\<rparr>)
     = (Inr (Value (JBool True)), Some \<lparr>host = ''localhost'', port = 9876, sock = Some 3\<rparr>)"
  by (simp add: get_maya_connection_def send_command_def receive_full_response_def
      read_response_def table_loads_def)

text \<open>
  C2 (the code at a failing input). The command \<^verbatim>\<open>{"command": "about", "params": {}}\<close>,
  which the MCP server sends as its probe, arrives in one read and the main thread
  then runs the deferred wrapper: the only bytes written back are \<^verbatim>\<open>null\<close>, which is
  neither form of Response.
\<close>

theorem about_command_is_answered_null:
  "sent (handle_client
          (table_loads [(''[0]'', JObj [(''command'', JStr ''about''), (''params'', JObj [])])])
          int_repr toy_cmds (handler_start []) [Recv ''[0]'', MainThreadIdle])
     = [''null'']"
  by (simp add: handle_client_def handler_start_def handle_recv_def table_loads_def
      execute_wrapper_def execute_command_def execute_command_internal_def py_get_def
      is_mutating_def mutating_def handlers_get_def handlers_def direct_call_def Let_def)

text \<open>
  C5 (the code at a failing input). \<^verbatim>\<open>modify_object(name="pCube1", visible=False)\<close>:
  the dictionary built has the key \<^verbatim>\<open>visible\<close> and no key \<^verbatim>\<open>visibility\<close>, the key
  the plugin's \<^verbatim>\<open>modify_object\<close> reads, and these are the bytes the tool writes on a
  fresh connection.
\<close>

theorem modify_object_sends_key_visible:
  "modify_object_params ''pCube1'' None None None (Some False) =
     [(''name'', JStr ''pCube1''), (''visible'', JBool False :: int json)]
   \<and> map_of (modify_object_params ''pCube1'' None None None (Some False)
               :: (string \<times> int json) list) ''visibility'' = None
   \<and> snd (snd (modify_object_tool (table_loads []) int_repr
        \<lparr>sendall_raises = None, recvs = []\<rparr> (Some 4)
        \<lparr>sendall_raises = None, recvs = [Timeout]\<rparr> None
        ''pCube1'' None None None (Some False)))
     = [dumps int_repr (JObj [(''command'', JStr ''modify_object''),
                              (''params'', JObj [(''name'', JStr ''pCube1''),
                                                 (''visible'', JBool False)])])]"
  by (simp add: modify_object_params_def modify_object_tool_def get_maya_connection_def
      create_connection_def connect_def send_command_def receive_full_response_def
      after_loop_def del: dumps.simps)

section \<open>Framing on the plugin's side\<close>

lemma concat_take_strict_prefix:
  assumes "[] \<notin> set cs" and "k < length cs"
  shows "strict_prefix (concat (take k cs)) (concat cs)"
proof -
  have split: "concat cs = concat (take k cs) @ concat (drop k cs)"
    by (metis append_take_drop_id concat_append)
  have "drop k cs \<noteq> []" using assms(2) by simp
  then obtain c rest where d: "drop k cs = c # rest" by (cases "drop k cs") auto
  then have "c \<in> set cs" by (metis in_set_dropD list.set_intros(1))
  then have "c \<noteq> []" using assms(1) by auto
  then have "concat (drop k cs) \<noteq> []" using d by simp
  then show ?thesis using split by (metis strict_prefixI' append_Nil2 neq_Nil_conv)
qed

lemma concat_take_nonempty:
  assumes "[] \<notin> set cs" and "0 < k"  and "cs \<noteq> []"
  shows "concat (take k cs) \<noteq> []"
proof -
  obtain c rest where c: "cs = c # rest" using assms(3) by (cases cs) auto
  obtain j where j: "k = Suc j" using assms(2) by (cases k) auto
  have "c \<noteq> []" using assms(1) c by auto
  then show ?thesis using c j by simp
qed

lemma handle_client_buffers:
  assumes "running st" and "\<not> closed st" and "[] \<notin> set cs"
    and "\<forall>k. 0 < k \<and> k \<le> length cs \<longrightarrow>
           loads (buffer st @ concat (take k cs)) = JSONDecodeError"
  shows "handle_client loads float_repr cmds st (map Recv cs) =
           st\<lparr>buffer := buffer st @ concat cs\<rparr>"
  using assms
proof (induction cs arbitrary: st)
  case Nil
  then show ?case by (simp add: handle_client_def)
next
  case (Cons c cs)
  have c: "c \<noteq> []" using Cons.prems(3) by auto
  have "0 < (1::nat) \<and> 1 \<le> length (c # cs)" by simp
  then have "loads (buffer st @ concat (take 1 (c # cs))) = JSONDecodeError"
    using Cons.prems(4) by blast
  then have first: "loads (buffer st @ c) = JSONDecodeError" by simp
  let ?st = "st\<lparr>buffer := buffer st @ c\<rparr>"
  have s1: "step loads float_repr cmds st (Recv c) = ?st"
    using Cons.prems(1,2) c first by (simp add: handle_recv_def)
  have later: "\<forall>k. 0 < k \<and> k \<le> length cs \<longrightarrow>
                 loads (buffer ?st @ concat (take k cs)) = JSONDecodeError"
  proof (intro allI impI)
    fix k assume "0 < k \<and> k \<le> length cs"
    then have "0 < Suc k \<and> Suc k \<le> length (c # cs)" by simp
    then have "loads (buffer st @ concat (take (Suc k) (c # cs))) = JSONDecodeError"
      using Cons.prems(4) by blast
    then show "loads (buffer ?st @ concat (take k cs)) = JSONDecodeError" by simp
  qed
  have "handle_client loads float_repr cmds ?st (map Recv cs) =
          ?st\<lparr>buffer := buffer ?st @ concat cs\<rparr>"
    using Cons.IH[of ?st] Cons.prems(1,2,3) later by simp
  then show ?case using s1 by (simp add: handle_client_def)
qed

lemma handle_client_append:
  "handle_client loads float_repr cmds st (evs @ evs') =
     handle_client loads float_repr cmds (handle_client loads float_repr cmds st evs) evs'"
  by (simp add: handle_client_def)

text \<open>
  C3. Let the decoder return a command dictionary for its serialisation and raise
  \<^verbatim>\<open>JSONDecodeError\<close> for every non-empty proper prefix of it (what \<^verbatim>\<open>json.loads\<close>
  does for the text \<^verbatim>\<open>json.dumps\<close> writes for a dictionary). Feed the serialisation
  to a running handler with an empty buffer in any non-empty chunks, one chunk per
  read. After each read but the last the handler has only accumulated the bytes: it
  has queued nothing, executed nothing and written nothing. The last read parses:
  the stored command is exactly the one serialised, the buffer is empty again and one
  wrapper is queued; when the main thread runs it, it executes that command.
\<close>

theorem framing_round_trip:
  assumes "loads (dumps float_repr (JObj kvs)) = Parsed (JObj kvs)"
    and "\<forall>p. p \<noteq> [] \<and> strict_prefix p (dumps float_repr (JObj kvs)) \<longrightarrow>
           loads p = JSONDecodeError"
    and "concat chunks = dumps float_repr (JObj kvs)"
    and "[] \<notin> set chunks"
    and "running st" and "\<not> closed st" and "buffer st = []"
  shows "(\<forall>k. k < length chunks \<longrightarrow>
            handle_client loads float_repr cmds st (map Recv (take k chunks)) =
              st\<lparr>buffer := concat (take k chunks)\<rparr>)
       \<and> handle_client loads float_repr cmds st (map Recv chunks) =
            st\<lparr>buffer := [], command := Some (JObj kvs), deferred := deferred st + 1\<rparr>
       \<and> handle_client loads float_repr cmds st (map Recv chunks @ [MainThreadIdle]) =
            execute_wrapper float_repr cmds (st\<lparr>buffer := [], command := Some (JObj kvs)\<rparr>)"
proof -
  let ?D = "dumps float_repr (JObj kvs)"
  have D: "?D \<noteq> []" by simp
  then have ne: "chunks \<noteq> []" using assms(3) by auto
  have part1: "handle_client loads float_repr cmds st (map Recv (take k chunks)) =
              st\<lparr>buffer := concat (take k chunks)\<rparr>" if k: "k < length chunks" for k
  proof -
    have "\<forall>j. 0 < j \<and> j \<le> length (take k chunks) \<longrightarrow>
            loads (buffer st @ concat (take j (take k chunks))) = JSONDecodeError"
    proof (intro allI impI)
      fix j assume j: "0 < j \<and> j \<le> length (take k chunks)"
      then have jk: "j \<le> k" and jl: "j < length chunks" using k by auto
      have t: "take j (take k chunks) = take j chunks" using jk by (simp add: min_def)
      have "strict_prefix (concat (take j chunks)) ?D"
        using concat_take_strict_prefix[OF assms(4) jl] assms(3) by simp
      moreover have "concat (take j chunks) \<noteq> []"
        using concat_take_nonempty[OF assms(4) _ ne, of j] j by simp
      ultimately have "loads (concat (take j chunks)) = JSONDecodeError"
        using assms(2) by blast
      then show "loads (buffer st @ concat (take j (take k chunks))) = JSONDecodeError"
        using t assms(7) by simp
    qed
    moreover have "[] \<notin> set (take k chunks)"
      using assms(4) by (meson in_set_takeD)
    ultimately show ?thesis
      using handle_client_buffers[of st "take k chunks" loads float_repr cmds] assms(5,6,7)
      by simp
  qed
  let ?b = "butlast chunks"
  let ?l = "last chunks"
  have bl: "chunks = ?b @ [?l]" using ne by simp
  have tb: "take (length chunks - 1) chunks = ?b" by (simp add: butlast_conv_take)
  have "length chunks - 1 < length chunks" using ne by simp
  from part1[OF this] have pre: "handle_client loads float_repr cmds st (map Recv ?b) =
      st\<lparr>buffer := concat ?b\<rparr>"
    unfolding tb .
  have l: "?l \<noteq> []" using assms(4) ne last_in_set by metis
  have "concat ?b @ ?l = concat chunks" by (metis bl concat_append concat.simps append_Nil2)
  then have full: "loads (buffer (st\<lparr>buffer := concat ?b\<rparr>) @ ?l) = Parsed (JObj kvs)"
    using assms(1,3) by simp
  have "handle_client loads float_repr cmds st (map Recv chunks) =
          step loads float_repr cmds (handle_client loads float_repr cmds st (map Recv ?b)) (Recv ?l)"
    by (subst bl) (simp add: handle_client_def)
  also have "\<dots> = handle_recv loads ?l (st\<lparr>buffer := concat ?b\<rparr>)"
    unfolding pre using assms(5,6) by simp
  also have "\<dots> = st\<lparr>buffer := [], command := Some (JObj kvs), deferred := deferred st + 1\<rparr>"
    using handle_recv_parsed[of ?l loads "st\<lparr>buffer := concat ?b\<rparr>" "JObj kvs"] l full by simp
  finally have part2: "handle_client loads float_repr cmds st (map Recv chunks) =
            st\<lparr>buffer := [], command := Some (JObj kvs), deferred := deferred st + 1\<rparr>" .
  have part3: "handle_client loads float_repr cmds st (map Recv chunks @ [MainThreadIdle]) =
            execute_wrapper float_repr cmds (st\<lparr>buffer := [], command := Some (JObj kvs)\<rparr>)"
    unfolding handle_client_append part2 by (simp add: handle_client_def)
  show ?thesis using part1 part2 part3 by (intro conjI allI impI)
qed

lemma table_loads_rejects_prefix:
  "strict_prefix p d \<Longrightarrow> table_loads [(d, v)] p = JSONDecodeError"
  by (auto simp: table_loads_def strict_prefix_def)

lemma concat_singletons: "concat (map (\<lambda>c. [c]) xs) = xs"
  by (induction xs) auto

theorem framing_round_trip_witness:
  "handle_client
      (table_loads
         [(dumps int_repr (JObj [(''command'', JStr ''create_object''),
                                 (''params'', JObj [(''type'', JStr ''pCube1'')])]),
           JObj [(''command'', JStr ''create_object''),
                 (''params'', JObj [(''type'', JStr ''pCube1'')])])])
      int_repr toy_cmds (handler_start [])
      (map Recv (map (\<lambda>c. [c])
         (dumps int_repr (JObj [(''command'', JStr ''create_object''),
                                (''params'', JObj [(''type'', JStr ''pCube1'')])]))))
    = (handler_start [])\<lparr>buffer := [],
         command := Some (JObj [(''command'', JStr ''create_object''),
                                (''params'', JObj [(''type'', JStr ''pCube1'')])]),
         deferred := deferred (handler_start [] :: (int, toy_scene) handler_state) + 1\<rparr>"
proof -
  let ?kvs = "[(''command'', JStr ''create_object''),
               (''params'', JObj [(''type'', JStr ''pCube1'')])] :: (string \<times> int json) list"
  let ?D = "dumps int_repr (JObj ?kvs)"
  let ?loads = "table_loads [(?D, JObj ?kvs)]"
  let ?st = "handler_start ([] :: toy_scene) :: (int, toy_scene) handler_state"
  have h1: "?loads ?D = Parsed (JObj ?kvs)" by (simp add: table_loads_def del: dumps.simps)
  have h2: "\<forall>p. p \<noteq> [] \<and> strict_prefix p ?D \<longrightarrow> ?loads p = JSONDecodeError"
    using table_loads_rejects_prefix by blast
  have h3: "concat (map (\<lambda>c. [c]) ?D) = ?D" by (rule concat_singletons)
  have h4: "[] \<notin> set (map (\<lambda>c. [c]) ?D)" by auto
  have h5: "running ?st" and h6: "\<not> closed ?st" and h7: "buffer ?st = []"
    by (simp_all add: handler_start_def)
  show ?thesis
    by (rule framing_round_trip[OF h1 h2 h3 h4 h5 h6 h7, THEN conjunct2, THEN conjunct1])
qed

section \<open>Further properties\<close>

text \<open>
  An exception raised while a command dictionary is dispatched never leaves
  \<^verbatim>\<open>execute_command\<close>: the response is \<^verbatim>\<open>{"status": "error", "message": str(e)}\<close>
  and the scene is the one the handler had reached. A command that is not a
  dictionary is answered with the \<^verbatim>\<open>AttributeError\<close> of \<^verbatim>\<open>command.get\<close>.
\<close>

theorem execute_command_reports_exceptions:
  "(execute_command_internal cmds (JObj kvs) s = (Inl e, s') \<longrightarrow>
      fst (execute_command cmds t (JObj kvs) s) =
        JObj [(''status'', JStr ''error''), (''message'', JStr (str_exn e))]
      \<and> fst (snd (execute_command cmds t (JObj kvs) s)) = s')
   \<and> execute_command cmds t (JArr xs) s =
        (JObj [(''status'', JStr ''error''),
               (''message'', JStr (no_attribute (JArr xs :: 'a json) ''get''))], s, None)"
proof (intro conjI impI)
  assume a: "execute_command_internal cmds (JObj kvs) s = (Inl e, s')"
  show "fst (execute_command cmds t (JObj kvs) s) =
        JObj [(''status'', JStr ''error''), (''message'', JStr (str_exn e))]"
    using a by (simp add: execute_command_def py_get_def Let_def error_response_def
        executeInMainThreadWithResult_def direct_call_def)
  show "fst (snd (execute_command cmds t (JObj kvs) s)) = s'"
    using a by (simp add: execute_command_def py_get_def Let_def
        executeInMainThreadWithResult_def direct_call_def)
next
  show "execute_command cmds t (JArr xs) s =
        (JObj [(''status'', JStr ''error''),
               (''message'', JStr (no_attribute (JArr xs :: 'a json) ''get''))], s, None)"
    by (simp add: execute_command_def py_get_def error_response_def)
qed

theorem execute_command_reports_exceptions_witness:
  "fst (execute_command toy_cmds OwnerThread
          (JObj [(''command'', JStr ''create_object''),
                 (''params'', JObj [(''type'', JInt 7)])]) [])
     = JObj [(''status'', JStr ''error''),
             (''message'', JStr ''Invalid arguments for flag name'')]"
proof -
  have "execute_command_internal toy_cmds
          (JObj [(''command'', JStr ''create_object''),
                 (''params'', JObj [(''type'', JInt 7)])]) ([] :: toy_scene)
        = (Inl (TypeError ''Invalid arguments for flag name''), [])"
    by (simp add: execute_command_internal_def py_get_def handlers_get_def handlers_def
        create_object_def toy_cmds_def)
  from mp[OF execute_command_reports_exceptions[THEN conjunct1] this, THEN conjunct1,
      of OwnerThread]
  show ?thesis by simp
qed

text \<open>
  The wrappers share the variable \<^verbatim>\<open>command\<close>. When a second command is parsed
  before the main thread has run the wrapper queued for the first, both wrappers
  execute the second command: the first is never executed and the second is answered
  twice.
\<close>

theorem queued_wrappers_run_the_latest_command:
  "map exec_command (executions (handle_client
      (table_loads [(''[1]'', JObj [(''command'', JStr ''get_scene_info'')]),
                    (''[2]'', JObj [(''command'', JStr ''about'')])])
      int_repr toy_cmds (handler_start [])
      [Recv ''[1]'', Recv ''[2]'', MainThreadIdle, MainThreadIdle]))
     = [JObj [(''command'', JStr ''about'')], JObj [(''command'', JStr ''about'')]]
   \<and> sent (handle_client
      (table_loads [(''[1]'', JObj [(''command'', JStr ''get_scene_info'')]),
                    (''[2]'', JObj [(''command'', JStr ''about'')])])
      int_repr toy_cmds (handler_start [])
      [Recv ''[1]'', Recv ''[2]'', MainThreadIdle, MainThreadIdle])
     = [''null'', ''null'']"
  by (simp add: handle_client_def handler_start_def handle_recv_def table_loads_def
      execute_wrapper_def execute_command_def execute_command_internal_def py_get_def
      is_mutating_def mutating_def handlers_get_def handlers_def direct_call_def Let_def)

text \<open>
  With no singleton, the accessor makes the connection object for
  \<^verbatim>\<open>localhost:9876\<close> and connects it: it returns that object and keeps it as the
  singleton when the server accepts, and raises \<^verbatim>\<open>Failed to connect to Maya\<close> and
  keeps no singleton when it does not.
\<close>

theorem get_maya_connection_creates:
  "get_maya_connection loads float_repr probe (Some fd) None =
     (Inr (Connection \<lparr>host = ''localhost'', port = 9876, sock = Some fd\<rparr>),
      Some \<lparr>host = ''localhost'', port = 9876, sock = Some fd\<rparr>)
   \<and> get_maya_connection loads float_repr probe None None =
     (Inl (Exception (JStr ''Failed to connect to Maya'')), None)"
  by (simp add: get_maya_connection_def create_connection_def connect_def)

text \<open>
  \<^verbatim>\<open>get_scene_info\<close> never raises and never changes the scene; when a query of the
  host raises, what it returns is the dictionary \<^verbatim>\<open>{"error": str(e)}\<close>, which the
  dispatch wraps as a success.
\<close>

theorem get_scene_info_never_raises:
  "snd (get_scene_info cmds params s) = s
   \<and> (\<exists>r. fst (get_scene_info cmds params s) = Inr r)
   \<and> (cmds_ls_transforms cmds s = Inl e \<and> cmds_file_sn cmds s = Inr sn \<longrightarrow>
        get_scene_info cmds params s = (Inr (JObj [(''error'', JStr (str_exn e))]), s))"
  by (auto simp add: get_scene_info_def scene_info_try_def split: sum.splits)

theorem get_scene_info_never_raises_witness:
  "get_scene_info (toy_cmds\<lparr>cmds_ls_transforms := (\<lambda>s. Inl (HostError ''no scene''))\<rparr>)
      (JObj []) [] = (Inr (JObj [(''error'', JStr ''no scene'')]), [])"
proof -
  let ?cmds = "toy_cmds\<lparr>cmds_ls_transforms := (\<lambda>s. Inl (HostError ''no scene''))\<rparr>"
  have "cmds_ls_transforms ?cmds ([] :: toy_scene) = Inl (HostError ''no scene'')
        \<and> cmds_file_sn ?cmds ([] :: toy_scene) = Inr []"
    by (simp add: toy_cmds_def)
  from mp[OF get_scene_info_never_raises[THEN conjunct2, THEN conjunct2] this, of "JObj []"]
  show ?thesis by simp
qed

text \<open>
  The plugin's \<^verbatim>\<open>modify_object\<close> reads the keys \<^verbatim>\<open>name\<close>, \<^verbatim>\<open>location\<close>,
  \<^verbatim>\<open>rotation\<close>, \<^verbatim>\<open>scale\<close> and \<^verbatim>\<open>visibility\<close> only: two parameter dictionaries that
  agree on these give the same outcome, whatever they hold under \<^verbatim>\<open>visible\<close>.
\<close>

theorem plugin_modify_object_reads_visibility:
  assumes "\<forall>k \<in> {''name'', ''location'', ''rotation'', ''scale'', ''visibility''}.
             map_of kvs k = map_of kvs' k"
  shows "modify_object cmds (JObj kvs) s = modify_object cmds (JObj kvs') s"
proof -
  have eqs: "py_get (JObj kvs) ''name'' JNull = py_get (JObj kvs') ''name'' JNull"
    "py_get (JObj kvs) ''location'' JNull = py_get (JObj kvs') ''location'' JNull"
    "py_get (JObj kvs) ''rotation'' JNull = py_get (JObj kvs') ''rotation'' JNull"
    "py_get (JObj kvs) ''scale'' JNull = py_get (JObj kvs') ''scale'' JNull"
    "py_get (JObj kvs) ''visibility'' (JBool True) = py_get (JObj kvs') ''visibility'' (JBool True)"
    using assms by (simp_all add: py_get_def)
  show ?thesis unfolding modify_object_def eqs ..
qed

theorem plugin_modify_object_reads_visibility_witness:
  "modify_object toy_cmds
      (JObj (modify_object_params ''pCube1'' None None None (Some False))) [(''pCube1'', [0, 0, 0])]
   = modify_object toy_cmds
      (JObj (modify_object_params ''pCube1'' None None None None)) [(''pCube1'', [0, 0, 0])]"
proof -
  have "\<forall>k \<in> {''name'', ''location'', ''rotation'', ''scale'', ''visibility''}.
          map_of (modify_object_params ''pCube1'' None None None (Some False)
                    :: (string \<times> int json) list) k
          = map_of (modify_object_params ''pCube1'' None None None None) k"
    by (simp add: modify_object_params_def)
  then show ?thesis by (rule plugin_modify_object_reads_visibility)
qed

end
